theory Spec2Isabelle
  imports Main "HOL-Library.Sublist"
begin

section \<open>The syntax tree read by the analyzer\<close>

text \<open>
  The analyzer \<open>nodefertest\<close> reads syntax trees of package \<open>go/ast\<close>. Only the parts of a
  tree that the analyzer looks at are kept apart; every other node kind is a node with a
  list of children, in the order in which \<open>ast.Walk\<close> visits them.

  A type expression of a parameter is inspected by shape only: \<open>*ast.StarExpr\<close> with field
  \<open>X\<close>, \<open>*ast.SelectorExpr\<close> with fields \<open>X\<close> and \<open>Sel\<close> (an identifier, kept as its
  \<open>Name\<close>), \<open>*ast.Ident\<close> with field \<open>Name\<close>. Every other expression form, and an absent
  type, is \<open>OtherExpr\<close>: each of the three type assertions of the source fails on it.
\<close>

datatype expr =
    Ident string
  | StarExpr expr
  | SelectorExpr expr string
  | OtherExpr

text \<open>\<open>ast.Field\<close>: the names declared and their type.\<close>

record field =
  Names :: "string list"
  FieldType :: expr

text \<open>
  \<open>ast.FuncType\<close>: \<open>Params\<close> is a pointer to a \<open>FieldList\<close> and may be nil (\<open>None\<close>);
  otherwise it holds the \<open>List\<close> of the fields.
\<close>

record funcType =
  Params :: "field list option"

text \<open>\<open>token.Pos\<close> is an integer offset.\<close>

type_synonym pos = int

text \<open>
  Nodes of a function body.
  \<^item> \<open>DeferStmt p call\<close>: \<open>ast.DeferStmt\<close> with \<open>Defer = p\<close> and \<open>Call = call\<close>; the walk of
    a defer statement visits its call expression.
  \<^item> \<open>FuncLit ty body\<close>: \<open>ast.FuncLit\<close>; \<open>Type\<close> is a pointer to a \<open>FuncType\<close> and \<open>Body\<close> a
    pointer to a \<open>BlockStmt\<close>, either may be nil. A body that is present is the statement
    list of the block.
  \<^item> \<open>Other children\<close>: every other statement or expression (block, if, for, range,
    switch, case clause, select, comm clause, labeled statement, go statement, call,
    assignment, ...), with the children that \<open>ast.Walk\<close> visits, in that order.
\<close>

datatype node =
    DeferStmt pos node
  | FuncLit "funcType option" "node list option"
  | Other "node list"

text \<open>
  \<open>ast.FuncDecl\<close>: \<open>Name\<close> is the \<open>Name\<close> of the identifier, \<open>FType\<close> is the field \<open>Type\<close>
  (never nil in a tree built by \<open>go/parser\<close>; the source reads it unguarded), and \<open>Body\<close>
  is nil for a function declared without a body (an external function). The fields
  \<open>Doc\<close> and \<open>Recv\<close> are left out: the analyzer does not read them, so a method is
  treated as a function of the same name.
\<close>

record funcDecl =
  Name :: string
  FType :: funcType
  Body :: "node list option"

text \<open>
  A top-level declaration is a function declaration or a general declaration (import,
  constant, type, variable) with its children. A file is its list of declarations.
\<close>

datatype decl =
    FuncDecl funcDecl
  | GenDecl "node list"

type_synonym astFile = "decl list"

text \<open>\<open>analysis.Pass\<close>: the files to analyze.\<close>

record pass =
  Files :: "astFile list"

text \<open>\<open>analysis.Diagnostic\<close>, as \<open>pass.Reportf\<close> builds it.\<close>

record diagnostic =
  Pos :: pos
  Message :: string

text \<open>A run-time panic of the analyzer.\<close>

datatype error = NilPointerDereference

section \<open>The signature predicates\<close>

text \<open>
  The chain of type assertions on a parameter type, shared verbatim by
  \<open>hasFuncLitTestingTParam\<close> and \<open>hasTestingTParam\<close>: a star expression over a selector
  expression over an identifier, the identifier named \<open>testing\<close> and the selected name
  \<open>T\<close> or \<open>B\<close>.
\<close>

fun isTestingTOrB :: "expr \<Rightarrow> bool" where
  "isTestingTOrB (StarExpr (SelectorExpr (Ident name) sel)) =
     (name = ''testing'' \<and> (sel = ''T'' \<or> sel = ''B''))"
| "isTestingTOrB _ = False"

text \<open>The loop over \<open>Params.List\<close>: return true at the first field that matches.\<close>

fun paramsLoop :: "field list \<Rightarrow> bool" where
  "paramsLoop [] = False"
| "paramsLoop (f # fs) = (if isTestingTOrB (FieldType f) then True else paramsLoop fs)"

fun hasFuncLitTestingTParam :: "funcType option \<Rightarrow> bool" where
  "hasFuncLitTestingTParam None = False"
| "hasFuncLitTestingTParam (Some ty) =
     (case Params ty of None \<Rightarrow> False | Some fs \<Rightarrow> paramsLoop fs)"

definition isTestFunction :: "funcDecl \<Rightarrow> bool" where
  "isTestFunction d =
     (if length (Name d) > 4 \<and> take 4 (Name d) = ''Test'' then True
      else if length (Name d) > 9 \<and> take 9 (Name d) = ''Benchmark'' then True
      else False)"

definition hasTestingTParam :: "funcDecl \<Rightarrow> bool" where
  "hasTestingTParam d =
     (case Params (FType d) of
        None \<Rightarrow> False
      | Some fs \<Rightarrow> if length fs = 0 then False else paramsLoop fs)"

section \<open>The walk\<close>

text \<open>The one message of the analyzer.\<close>

definition message :: string where
  "message = ''use t.Cleanup() instead of defer in test functions to ensure cleanup runs even after t.Fatal/t.FailNow''"

definition report :: "pos \<Rightarrow> diagnostic" where
  "report p = \<lparr>Pos = p, Message = message\<rparr>"

text \<open>
  \<open>checkDeferInTestFunc\<close> calls \<open>ast.Inspect\<close> on the body. \<open>inspectNode\<close> is the visit of
  one node by the callback followed by the walk of its children when the callback
  returns true; \<open>inspectList\<close> walks a list of children in order.

  \<^item> A defer statement is reported, then its call is walked.
  \<^item> A function literal is checked by a recursive call of \<open>checkDeferInTestFunc\<close> on its
    body when \<open>hasFuncLitTestingTParam\<close> holds; the callback returns false in both cases,
    so its children are not walked.
  \<^item> Any other node is walked through.

  The body is passed to \<open>ast.Inspect\<close> with no nil check. For a nil \<open>*ast.BlockStmt\<close> the
  callback returns true (it is neither a defer statement nor a function literal) and
  \<open>ast.Walk\<close> then reads the field \<open>List\<close> of the nil pointer: the analyzer panics.
  Diagnostics reported before a panic are lost with the run.
\<close>

fun inspectNode :: "node \<Rightarrow> error + diagnostic list"
  and inspectList :: "node list \<Rightarrow> error + diagnostic list"
  and checkDeferInTestFunc :: "node list option \<Rightarrow> error + diagnostic list"
where
  "inspectNode (DeferStmt p call) =
     (case inspectNode call of Inl e \<Rightarrow> Inl e | Inr ds \<Rightarrow> Inr (report p # ds))"
| "inspectNode (FuncLit ty body) =
     (if hasFuncLitTestingTParam ty then checkDeferInTestFunc body else Inr [])"
| "inspectNode (Other children) = inspectList children"
| "inspectList [] = Inr []"
| "inspectList (n # ns) =
     (case inspectNode n of
        Inl e \<Rightarrow> Inl e
      | Inr ds \<Rightarrow> (case inspectList ns of Inl e \<Rightarrow> Inl e | Inr es \<Rightarrow> Inr (ds @ es)))"
| "checkDeferInTestFunc None = Inl NilPointerDereference"
| "checkDeferInTestFunc (Some stmts) = inspectList stmts"

section \<open>The pass\<close>

text \<open>
  \<open>run\<close> inspects every file. The callback acts on function declarations only, and in a
  parsed file these are top-level declarations.

  For a declaration that fails \<open>isTestFunction\<close> or \<open>hasTestingTParam\<close>, and for a general
  declaration, the callback returns true and \<open>ast.Walk\<close> goes on into the declaration. The
  callback returns true on every node below, since none is a function declaration, so
  nothing is reported there. \<open>descend\<close> is that walk: it goes through every node, and into
  every function literal, whose \<open>Type\<close> and \<open>Body\<close> \<open>ast.Walk\<close> visits unguarded; it
  panics at a literal where either is nil. \<open>ast.Walk\<close> skips the body of a function
  declaration when it is nil.

  Otherwise \<open>checkDeferInTestFunc\<close> is called with the body and the callback returns
  false.
\<close>

fun descend :: "node \<Rightarrow> error + diagnostic list"
  and descendList :: "node list \<Rightarrow> error + diagnostic list"
where
  "descend (DeferStmt p call) = descend call"
| "descend (FuncLit None body) = Inl NilPointerDereference"
| "descend (FuncLit (Some ty) None) = Inl NilPointerDereference"
| "descend (FuncLit (Some ty) (Some stmts)) = descendList stmts"
| "descend (Other children) = descendList children"
| "descendList [] = Inr []"
| "descendList (n # ns) =
     (case descend n of
        Inl e \<Rightarrow> Inl e
      | Inr ds \<Rightarrow> (case descendList ns of Inl e \<Rightarrow> Inl e | Inr es \<Rightarrow> Inr (ds @ es)))"

fun runDecl :: "decl \<Rightarrow> error + diagnostic list" where
  "runDecl (FuncDecl d) =
     (if \<not> isTestFunction d \<or> \<not> hasTestingTParam d then
        (case Body d of None \<Rightarrow> Inr [] | Some stmts \<Rightarrow> descendList stmts)
      else checkDeferInTestFunc (Body d))"
| "runDecl (GenDecl children) = descendList children"

fun runFile :: "astFile \<Rightarrow> error + diagnostic list" where
  "runFile [] = Inr []"
| "runFile (d # ds) =
     (case runDecl d of
        Inl e \<Rightarrow> Inl e
      | Inr xs \<Rightarrow> (case runFile ds of Inl e \<Rightarrow> Inl e | Inr ys \<Rightarrow> Inr (xs @ ys)))"

fun runFiles :: "astFile list \<Rightarrow> error + diagnostic list" where
  "runFiles [] = Inr []"
| "runFiles (f # fs) =
     (case runFile f of
        Inl e \<Rightarrow> Inl e
      | Inr xs \<Rightarrow> (case runFiles fs of Inl e \<Rightarrow> Inl e | Inr ys \<Rightarrow> Inr (xs @ ys)))"

definition run :: "pass \<Rightarrow> error + diagnostic list" where
  "run p = runFiles (Files p)"

section \<open>The specification's notions\<close>

text \<open>
  The specification's parameter shape: a pointer to one of the two test-driver types,
  written \<open>*testing.T\<close> or \<open>*testing.B\<close>.
\<close>

definition testContextParameterShape :: "expr \<Rightarrow> bool" where
  "testContextParameterShape e =
     (e = StarExpr (SelectorExpr (Ident ''testing'') ''T'')
      \<or> e = StarExpr (SelectorExpr (Ident ''testing'') ''B''))"

text \<open>
  The specification's test entry point: the name begins with \<open>Test\<close> or \<open>Benchmark\<close>
  followed by at least one further character, and some parameter has the shape above.
\<close>

definition isTestEntryPoint :: "funcDecl \<Rightarrow> bool" where
  "isTestEntryPoint d =
     ((strict_prefix ''Test'' (Name d) \<or> strict_prefix ''Benchmark'' (Name d))
      \<and> (\<exists>f \<in> set (case Params (FType d) of None \<Rightarrow> [] | Some fs \<Rightarrow> fs).
            testContextParameterShape (FieldType f)))"

text \<open>
  Every defer statement of a tree, in source order, each with the function literals that
  enclose it inside the tree, outermost first: for each literal, whether it carries a
  test-context parameter. Nothing is skipped here.
\<close>

fun defersIn :: "node \<Rightarrow> (bool list \<times> pos) list"
  and defersInList :: "node list \<Rightarrow> (bool list \<times> pos) list"
where
  "defersIn (DeferStmt p call) = ([], p) # defersIn call"
| "defersIn (FuncLit ty None) = []"
| "defersIn (FuncLit ty (Some stmts)) =
     map (\<lambda>x. (hasFuncLitTestingTParam ty # fst x, snd x)) (defersInList stmts)"
| "defersIn (Other children) = defersInList children"
| "defersInList [] = []"
| "defersInList (n # ns) = defersIn n @ defersInList ns"

text \<open>
  The defer statements that are lexically reachable in a test context: those that no
  non-qualifying function literal encloses.
\<close>

definition reachableDefers :: "(bool list \<times> pos) list \<Rightarrow> pos list" where
  "reachableDefers xs = map snd (filter (\<lambda>x. list_all (\<lambda>b. b) (fst x)) xs)"

text \<open>
  A tree as the parser builds it: every function literal has a type and a body. A
  declaration may lack its body.
\<close>

fun wellFormed :: "node \<Rightarrow> bool"
  and wellFormedList :: "node list \<Rightarrow> bool"
where
  "wellFormed (DeferStmt p call) = wellFormed call"
| "wellFormed (FuncLit None body) = False"
| "wellFormed (FuncLit (Some ty) None) = False"
| "wellFormed (FuncLit (Some ty) (Some stmts)) = wellFormedList stmts"
| "wellFormed (Other children) = wellFormedList children"
| "wellFormedList [] = True"
| "wellFormedList (n # ns) = (wellFormed n \<and> wellFormedList ns)"

fun wellFormedBody :: "node list option \<Rightarrow> bool" where
  "wellFormedBody None = True"
| "wellFormedBody (Some stmts) = wellFormedList stmts"

text \<open>
  The tree with the body of every function literal that lacks a test-context parameter
  removed (set to nil), whatever it held. Literals that carry one are kept and erased
  inside in turn.
\<close>

fun eraseSkipped :: "node \<Rightarrow> node"
  and eraseSkippedList :: "node list \<Rightarrow> node list"
where
  "eraseSkipped (DeferStmt p call) = DeferStmt p (eraseSkipped call)"
| "eraseSkipped (FuncLit ty None) = FuncLit ty None"
| "eraseSkipped (FuncLit ty (Some stmts)) =
     (if hasFuncLitTestingTParam ty then FuncLit ty (Some (eraseSkippedList stmts))
      else FuncLit ty None)"
| "eraseSkipped (Other children) = Other (eraseSkippedList children)"
| "eraseSkippedList [] = []"
| "eraseSkippedList (n # ns) = eraseSkipped n # eraseSkippedList ns"

section \<open>Sample syntax trees\<close>

text \<open>The parameter \<open>t *testing.T\<close> and the signature \<open>func(t *testing.T)\<close>.\<close>

definition paramT :: field where
  "paramT = \<lparr>Names = [''t''], FieldType = StarExpr (SelectorExpr (Ident ''testing'') ''T'')\<rparr>"

definition sigT :: funcType where
  "sigT = \<lparr>Params = Some [paramT]\<rparr>"

text \<open>The signature \<open>func()\<close>: a parameter list that is present and empty.\<close>

definition sigNone :: funcType where
  "sigNone = \<lparr>Params = Some []\<rparr>"

text \<open>The call \<open>cleanup()\<close>: a call expression over an identifier, with no argument.\<close>

definition cleanupCall :: node where
  "cleanupCall = Other [Other []]"

text \<open>
  The statement \<open>t.Run("x", lit)\<close>: an expression statement over a call whose function is
  the selector \<open>t.Run\<close> and whose arguments are a string literal and \<open>lit\<close>.
\<close>

definition tRun :: "node \<Rightarrow> node" where
  "tRun lit = Other [Other [Other [Other [], Other []], Other [], lit]]"

section \<open>Properties of the predicates and of the walk\<close>

lemma isTestingTOrB_shape: "isTestingTOrB e = testContextParameterShape e"
  by (cases e rule: isTestingTOrB.cases) (auto simp: testContextParameterShape_def)

lemma paramsLoop_ex: "paramsLoop fs = (\<exists>f \<in> set fs. isTestingTOrB (FieldType f))"
  by (induction fs) auto

lemma take_strict_prefix:
  "k = length p \<Longrightarrow> (k < length n \<and> take k n = p) = strict_prefix p n"
  by (auto simp: strict_prefix_def prefix_def) (metis append_eq_conv_conj)

lemma isTestFunction_strict_prefix:
  "isTestFunction d = (strict_prefix ''Test'' (Name d) \<or> strict_prefix ''Benchmark'' (Name d))"
  unfolding isTestFunction_def
  using take_strict_prefix[of 4 "''Test''" "Name d"]
    take_strict_prefix[of 9 "''Benchmark''" "Name d"]
  by simp

lemma hasTestingTParam_ex:
  "hasTestingTParam d =
     (\<exists>f \<in> set (case Params (FType d) of None \<Rightarrow> [] | Some fs \<Rightarrow> fs).
        testContextParameterShape (FieldType f))"
  by (cases "Params (FType d)")
     (simp_all add: hasTestingTParam_def paramsLoop_ex isTestingTOrB_shape)

lemma defersInList_append: "defersInList (xs @ ys) = defersInList xs @ defersInList ys"
  by (induction xs) simp_all

lemma wellFormedList_append:
  "wellFormedList (xs @ ys) = (wellFormedList xs \<and> wellFormedList ys)"
  by (induction xs) simp_all

lemma reachableDefers_simps:
  "reachableDefers [] = []"
  "reachableDefers (xs @ ys) = reachableDefers xs @ reachableDefers ys"
  "reachableDefers (([], p) # xs) = p # reachableDefers xs"
  "reachableDefers (map (\<lambda>x. (True # fst x, snd x)) xs) = reachableDefers xs"
  "reachableDefers (map (\<lambda>x. (False # fst x, snd x)) xs) = []"
  by (simp_all add: reachableDefers_def filter_map comp_def)

text \<open>
  On a tree whose literals are complete the walk does not panic and reports the
  reachable defer statements, in source order.
\<close>

lemma walk_reachable:
  "wellFormed n \<Longrightarrow> inspectNode n = Inr (map report (reachableDefers (defersIn n)))"
  "wellFormedList ns \<Longrightarrow>
     inspectList ns = Inr (map report (reachableDefers (defersInList ns)))"
  "(case body of None \<Rightarrow> False | Some stmts \<Rightarrow> wellFormedList stmts) \<Longrightarrow>
     checkDeferInTestFunc body = Inr (map report (reachableDefers (defersInList (the body))))"
proof (induction n and ns and body rule: inspectNode_inspectList_checkDeferInTestFunc.induct)
  case (2 ty body)
  then show ?case
    by (cases ty; cases body; cases "hasFuncLitTestingTParam ty")
       (simp_all add: reachableDefers_simps)
qed (simp_all add: reachableDefers_simps split: option.splits)

text \<open>
  The walk into a declaration that is not checked reports nothing, and it does not
  panic on a tree whose literals are complete.
\<close>

lemma descend_no_findings:
  "descend n = Inr ds \<Longrightarrow> ds = []"
  "descendList ns = Inr ds \<Longrightarrow> ds = []"
proof (induction n and ns arbitrary: ds and ds rule: descend_descendList.induct)
  case (7 n ns)
  then show ?case by (auto split: sum.splits)
qed simp_all

lemma descend_wellFormed:
  "wellFormed n \<Longrightarrow> descend n = Inr []"
  "wellFormedList ns \<Longrightarrow> descendList ns = Inr []"
  by (induction n and ns rule: descend_descendList.induct) simp_all

lemma runDecl_not_checked:
  assumes "\<not> (isTestFunction d \<and> hasTestingTParam d)"
  shows "runDecl (FuncDecl d) = Inr ds \<Longrightarrow> ds = []"
    and "wellFormedBody (Body d) \<Longrightarrow> runDecl (FuncDecl d) = Inr []"
  using assms
  by (cases "Body d"; auto dest: descend_no_findings(2) simp: descend_wellFormed(2))+

text \<open>The walk does not see what the skipped literals hold.\<close>

lemma walk_eraseSkipped:
  "inspectNode (eraseSkipped n) = inspectNode n"
  "inspectList (eraseSkippedList ns) = inspectList ns"
  "checkDeferInTestFunc (map_option eraseSkippedList body) = checkDeferInTestFunc body"
proof (induction n and ns and body rule: inspectNode_inspectList_checkDeferInTestFunc.induct)
  case (2 ty body)
  then show ?case by (cases body) simp_all
next
  case (5 n ns)
  then show ?case by (cases "inspectNode n") simp_all
qed simp_all

text \<open>Every diagnostic of the walk carries the one message.\<close>

lemma walk_message:
  "inspectNode n = Inr ds \<Longrightarrow> \<forall>d \<in> set ds. Message d = message"
  "inspectList ns = Inr ds \<Longrightarrow> \<forall>d \<in> set ds. Message d = message"
  "checkDeferInTestFunc body = Inr ds \<Longrightarrow> \<forall>d \<in> set ds. Message d = message"
proof (induction n and ns and body arbitrary: ds and ds and ds
       rule: inspectNode_inspectList_checkDeferInTestFunc.induct)
  case (1 p call)
  then show ?case by (auto simp: report_def split: sum.splits)
next
  case (2 ty body)
  then show ?case by (auto split: if_splits)
next
  case (5 n ns)
  then show ?case by (auto split: sum.splits)
qed simp_all

lemma runDecl_message: "runDecl d = Inr ds \<Longrightarrow> \<forall>x \<in> set ds. Message x = message"
  by (cases d)
     (auto split: if_splits option.splits dest: walk_message(3) descend_no_findings(2))

lemma append_results:
  assumes "(case r of Inl e \<Rightarrow> Inl e
            | Inr xs \<Rightarrow> (case r' of Inl e \<Rightarrow> Inl e | Inr ys \<Rightarrow> Inr (xs @ ys))) = Inr ds"
  shows "\<exists>xs ys. r = Inr xs \<and> r' = Inr ys \<and> ds = xs @ ys"
  using assms by (cases r; cases r') auto

lemma runFile_message: "runFile f = Inr ds \<Longrightarrow> \<forall>x \<in> set ds. Message x = message"
proof (induction f arbitrary: ds)
  case (Cons d f)
  from Cons.prems obtain xs ys where "runDecl d = Inr xs" "runFile f = Inr ys" "ds = xs @ ys"
    using append_results[where r = "runDecl d" and r' = "runFile f" and ds = ds] by auto
  with Cons.IH[of ys] runDecl_message[of d xs] show ?case by auto
qed simp

lemma runFiles_message: "runFiles fs = Inr ds \<Longrightarrow> \<forall>x \<in> set ds. Message x = message"
proof (induction fs arbitrary: ds)
  case (Cons f fs)
  from Cons.prems obtain xs ys where "runFile f = Inr xs" "runFiles fs = Inr ys" "ds = xs @ ys"
    using append_results[where r = "runFile f" and r' = "runFiles fs" and ds = ds] by auto
  with Cons.IH[of ys] runFile_message[of f xs] show ?case by auto
qed simp

lemma run_single: "run \<lparr>Files = [[FuncDecl d]]\<rparr> = runDecl (FuncDecl d)"
  by (cases "runDecl (FuncDecl d)") (simp_all add: run_def)

lemma hasFuncLitTestingTParam_Some: "hasFuncLitTestingTParam ty \<Longrightarrow> \<exists>t. ty = Some t"
  by (cases ty) simp_all

lemmas sample_defs = paramT_def sigT_def sigNone_def cleanupCall_def tRun_def

lemmas eval_defs = isTestFunction_def hasTestingTParam_def run_def

section \<open>The claims\<close>

subsection \<open>C1: function literals inside declarations that are not test entry points\<close>

text \<open>
  C1, as stated, fails. The helper
  \<open>func Helper(t *testing.T) { t.Run("x", func(t *testing.T) { defer cleanup() }) }\<close>
  is not a test entry point (its name lacks the prefix), the literal in its body carries a
  \<open>*testing.T\<close> parameter and holds a defer statement at position 42, and the pass reports
  nothing for it: \<open>run\<close> calls \<open>checkDeferInTestFunc\<close> only behind the guard on
  \<open>isTestFunction\<close> and \<open>hasTestingTParam\<close>.
\<close>

theorem literal_in_helper_not_reported:
  "hasFuncLitTestingTParam
     (Some \<lparr>Params = Some [\<lparr>Names = [''t''],
        FieldType = StarExpr (SelectorExpr (Ident ''testing'') ''T'')\<rparr>]\<rparr>)
   \<and> \<not> isTestFunction
       \<lparr>Name = ''Helper'',
        FType = \<lparr>Params = Some [\<lparr>Names = [''t''],
          FieldType = StarExpr (SelectorExpr (Ident ''testing'') ''T'')\<rparr>]\<rparr>,
        Body = Some [Other [Other [Other [Other [], Other []], Other [],
          FuncLit (Some \<lparr>Params = Some [\<lparr>Names = [''t''],
              FieldType = StarExpr (SelectorExpr (Ident ''testing'') ''T'')\<rparr>]\<rparr>)
            (Some [DeferStmt 42 (Other [Other []])])]]]\<rparr>
   \<and> run \<lparr>Files = [[FuncDecl
       \<lparr>Name = ''Helper'',
        FType = \<lparr>Params = Some [\<lparr>Names = [''t''],
          FieldType = StarExpr (SelectorExpr (Ident ''testing'') ''T'')\<rparr>]\<rparr>,
        Body = Some [Other [Other [Other [Other [], Other []], Other [],
          FuncLit (Some \<lparr>Params = Some [\<lparr>Names = [''t''],
              FieldType = StarExpr (SelectorExpr (Ident ''testing'') ''T'')\<rparr>]\<rparr>)
            (Some [DeferStmt 42 (Other [Other []])])]]]\<rparr>]]\<rparr> = Inr []"
  by (simp add: eval_defs)

text \<open>
  C1, amended. A function declaration that is not a recognized test entry point yields
  no finding, whatever its body holds, so a defer statement inside a function literal
  with a test-context parameter is not reported there; for a declaration of a parsed
  file the pass ends with no finding. The context-propagation rule is applied where the
  walk meets a literal, that is inside the body of a recognized test entry point or of a
  qualifying literal reached from one. There a defer statement is reported, at its own
  position and with the one message, exactly when every function literal that encloses
  it within the body carries a test-context parameter: the findings of the declaration
  are those defer statements, in source order, and each of them is among the findings,
  however deep it sits in qualifying literals and under other statements.
\<close>

theorem literal_reported_only_in_walked_body:
  "(\<not> (isTestFunction d \<and> hasTestingTParam d)
      \<longrightarrow> (\<forall>ds. run \<lparr>Files = [[FuncDecl d]]\<rparr> = Inr ds \<longrightarrow> ds = []))
   \<and> (\<not> (isTestFunction d \<and> hasTestingTParam d) \<and> wellFormedBody (Body d)
      \<longrightarrow> run \<lparr>Files = [[FuncDecl d]]\<rparr> = Inr [])
   \<and> (isTestFunction d \<and> hasTestingTParam d \<and> Body d = Some stmts \<and> wellFormedList stmts
      \<longrightarrow> run \<lparr>Files = [[FuncDecl d]]\<rparr> =
            Inr (map (\<lambda>p. \<lparr>Pos = p, Message = 
              ''use t.Cleanup() instead of defer in test functions to ensure cleanup runs even after t.Fatal/t.FailNow''\<rparr>)
                   (reachableDefers (defersInList stmts))))
   \<and> (isTestFunction d \<and> hasTestingTParam d \<and> Body d = Some stmts \<and> wellFormedList stmts
        \<and> (path, p) \<in> set (defersInList stmts) \<and> list_all (\<lambda>b. b) path
      \<longrightarrow> (\<exists>ds. run \<lparr>Files = [[FuncDecl d]]\<rparr> = Inr ds
             \<and> \<lparr>Pos = p, Message = 
              ''use t.Cleanup() instead of defer in test functions to ensure cleanup runs even after t.Fatal/t.FailNow''\<rparr> \<in> set ds))"
proof -
  let ?f = "\<lambda>p. \<lparr>Pos = p, Message = 
              ''use t.Cleanup() instead of defer in test functions to ensure cleanup runs even after t.Fatal/t.FailNow''\<rparr>"
  have f: "report = ?f"
    by (rule ext) (simp add: report_def message_def)
  have a: "\<forall>ds. run \<lparr>Files = [[FuncDecl d]]\<rparr> = Inr ds \<longrightarrow> ds = []"
    if "\<not> (isTestFunction d \<and> hasTestingTParam d)"
    using runDecl_not_checked(1)[OF that] by (simp add: run_single)
  have b: "run \<lparr>Files = [[FuncDecl d]]\<rparr> = Inr []"
    if "\<not> (isTestFunction d \<and> hasTestingTParam d)" "wellFormedBody (Body d)"
    using runDecl_not_checked(2)[OF that] by (simp add: run_single)
  have c: "run \<lparr>Files = [[FuncDecl d]]\<rparr> =
             Inr (map ?f (reachableDefers (defersInList stmts)))"
    if "isTestFunction d" "hasTestingTParam d" "Body d = Some stmts" "wellFormedList stmts"
    using walk_reachable(2)[OF that(4)] that(1,2,3) by (simp add: run_single f)
  have e: "\<exists>ds. run \<lparr>Files = [[FuncDecl d]]\<rparr> = Inr ds \<and> ?f p \<in> set ds"
    if q: "isTestFunction d" "hasTestingTParam d" "Body d = Some stmts" "wellFormedList stmts"
      and m: "(path, p) \<in> set (defersInList stmts)" "list_all (\<lambda>b. b) path"
  proof -
    from m have "p \<in> set (reachableDefers (defersInList stmts))"
      by (force simp: reachableDefers_def)
    then have "?f p \<in> set (map ?f (reachableDefers (defersInList stmts)))"
      by simp
    with c[OF q] show ?thesis by blast
  qed
  from a b c e show ?thesis by blast
qed

text \<open>
  The helper of the counterexample, and the test
  \<open>func TestFoo(t *testing.T) { t.Run("x", func(t *testing.T) { defer cleanup();
   if c { defer cleanup() }; t.Run("x", func(t *testing.T) { defer cleanup() });
   fn := func() { defer cleanup() } }) }\<close>
  with the defer statements at positions 1, 3, 2 and 4.
\<close>

theorem literal_reported_only_in_walked_body_witness:
  "\<not> (isTestFunction \<lparr>Name = ''Helper'', FType = sigT,
          Body = Some [tRun (FuncLit (Some sigT) (Some [DeferStmt 42 cleanupCall]))]\<rparr>
        \<and> hasTestingTParam \<lparr>Name = ''Helper'', FType = sigT,
          Body = Some [tRun (FuncLit (Some sigT) (Some [DeferStmt 42 cleanupCall]))]\<rparr>)
   \<and> wellFormedBody (Some [tRun (FuncLit (Some sigT) (Some [DeferStmt 42 cleanupCall]))])
   \<and> run \<lparr>Files = [[FuncDecl \<lparr>Name = ''Helper'', FType = sigT,
          Body = Some [tRun (FuncLit (Some sigT) (Some [DeferStmt 42 cleanupCall]))]\<rparr>]]\<rparr> = Inr []
   \<and> isTestFunction \<lparr>Name = ''TestFoo'', FType = sigT,
          Body = Some [tRun (FuncLit (Some sigT) (Some
            [DeferStmt 1 cleanupCall,
             Other [Other [], Other [DeferStmt 3 cleanupCall]],
             tRun (FuncLit (Some sigT) (Some [DeferStmt 2 cleanupCall])),
             Other [Other [], FuncLit (Some sigNone) (Some [DeferStmt 4 cleanupCall])]]))]\<rparr>
   \<and> hasTestingTParam \<lparr>Name = ''TestFoo'', FType = sigT,
          Body = Some [tRun (FuncLit (Some sigT) (Some
            [DeferStmt 1 cleanupCall,
             Other [Other [], Other [DeferStmt 3 cleanupCall]],
             tRun (FuncLit (Some sigT) (Some [DeferStmt 2 cleanupCall])),
             Other [Other [], FuncLit (Some sigNone) (Some [DeferStmt 4 cleanupCall])]]))]\<rparr>
   \<and> wellFormedList [tRun (FuncLit (Some sigT) (Some
            [DeferStmt 1 cleanupCall,
             Other [Other [], Other [DeferStmt 3 cleanupCall]],
             tRun (FuncLit (Some sigT) (Some [DeferStmt 2 cleanupCall])),
             Other [Other [], FuncLit (Some sigNone) (Some [DeferStmt 4 cleanupCall])]]))]
   \<and> defersInList [tRun (FuncLit (Some sigT) (Some
            [DeferStmt 1 cleanupCall,
             Other [Other [], Other [DeferStmt 3 cleanupCall]],
             tRun (FuncLit (Some sigT) (Some [DeferStmt 2 cleanupCall])),
             Other [Other [], FuncLit (Some sigNone) (Some [DeferStmt 4 cleanupCall])]]))]
       = [([True], 1), ([True], 3), ([True, True], 2), ([True, False], 4)]
   \<and> run \<lparr>Files = [[FuncDecl \<lparr>Name = ''TestFoo'', FType = sigT,
          Body = Some [tRun (FuncLit (Some sigT) (Some
            [DeferStmt 1 cleanupCall,
             Other [Other [], Other [DeferStmt 3 cleanupCall]],
             tRun (FuncLit (Some sigT) (Some [DeferStmt 2 cleanupCall])),
             Other [Other [], FuncLit (Some sigNone) (Some [DeferStmt 4 cleanupCall])]]))]\<rparr>]]\<rparr>
       = Inr [\<lparr>Pos = 1, Message = 
              ''use t.Cleanup() instead of defer in test functions to ensure cleanup runs even after t.Fatal/t.FailNow''\<rparr>,
              \<lparr>Pos = 3, Message = 
              ''use t.Cleanup() instead of defer in test functions to ensure cleanup runs even after t.Fatal/t.FailNow''\<rparr>,
              \<lparr>Pos = 2, Message = 
              ''use t.Cleanup() instead of defer in test functions to ensure cleanup runs even after t.Fatal/t.FailNow''\<rparr>]"
  using literal_reported_only_in_walked_body
    [of "\<lparr>Name = ''Helper'', FType = sigT,
          Body = Some [tRun (FuncLit (Some sigT) (Some [DeferStmt 42 cleanupCall]))]\<rparr>"]
    literal_reported_only_in_walked_body
    [of "\<lparr>Name = ''TestFoo'', FType = sigT,
          Body = Some [tRun (FuncLit (Some sigT) (Some
            [DeferStmt 1 cleanupCall,
             Other [Other [], Other [DeferStmt 3 cleanupCall]],
             tRun (FuncLit (Some sigT) (Some [DeferStmt 2 cleanupCall])),
             Other [Other [], FuncLit (Some sigNone) (Some [DeferStmt 4 cleanupCall])]]))]\<rparr>"
        "[tRun (FuncLit (Some sigT) (Some
            [DeferStmt 1 cleanupCall,
             Other [Other [], Other [DeferStmt 3 cleanupCall]],
             tRun (FuncLit (Some sigT) (Some [DeferStmt 2 cleanupCall])),
             Other [Other [], FuncLit (Some sigNone) (Some [DeferStmt 4 cleanupCall])]]))]"
        "[True, True]" 2]
  by (simp add: eval_defs sample_defs reachableDefers_def)

subsection \<open>C2: a literal without a test-context parameter is never entered\<close>

text \<open>
  C2. A function literal that lacks a test-context parameter yields no finding, whatever
  its body holds (a body that is absent included); and the findings of a walk, and its
  failure if it fails, are those of the tree in which every such literal has lost its
  body, at whatever depth the literal sits: nothing inside it, neither a defer statement
  nor a further literal that would qualify, has any effect on the walk.
\<close>

theorem skipped_literal_never_entered:
  "(\<not> hasFuncLitTestingTParam ty \<longrightarrow> inspectNode (FuncLit ty body) = Inr [])
   \<and> inspectNode (eraseSkipped n) = inspectNode n
   \<and> checkDeferInTestFunc (map_option eraseSkippedList b) = checkDeferInTestFunc b"
  using walk_eraseSkipped(1)[of n] walk_eraseSkipped(3)[of b] by simp

theorem skipped_literal_never_entered_witness:
  "\<not> hasFuncLitTestingTParam (Some sigNone)
   \<and> inspectNode (FuncLit (Some sigNone)
        (Some [DeferStmt 1 cleanupCall,
               tRun (FuncLit (Some sigT) (Some [DeferStmt 2 cleanupCall]))])) = Inr []
   \<and> eraseSkipped (Other [DeferStmt 3 cleanupCall, FuncLit (Some sigNone)
        (Some [tRun (FuncLit (Some sigT) (Some [DeferStmt 2 cleanupCall]))])])
       = Other [DeferStmt 3 cleanupCall, FuncLit (Some sigNone) None]
   \<and> inspectNode (Other [DeferStmt 3 cleanupCall, FuncLit (Some sigNone)
        (Some [tRun (FuncLit (Some sigT) (Some [DeferStmt 2 cleanupCall]))])])
       = Inr [report 3]"
  using skipped_literal_never_entered
    [of "Some sigNone"
        "Some [DeferStmt 1 cleanupCall,
               tRun (FuncLit (Some sigT) (Some [DeferStmt 2 cleanupCall]))]"
        "Other [DeferStmt 3 cleanupCall, FuncLit (Some sigNone)
           (Some [tRun (FuncLit (Some sigT) (Some [DeferStmt 2 cleanupCall]))])]"
        None]
  by (simp add: sample_defs)

subsection \<open>C3: the test entry points\<close>

text \<open>
  C3. The code's test of a declaration, \<open>isTestFunction\<close> and \<open>hasTestingTParam\<close>, holds
  exactly for the specification's test entry points: a name that begins with \<open>Test\<close> or
  \<open>Benchmark\<close> followed by at least one further character, and at least one parameter of
  type \<open>*testing.T\<close> or \<open>*testing.B\<close>. The body of a declaration is checked exactly in that
  case; in every other case, a matching name with no qualifying parameter included, the
  declaration yields no finding, and for a declaration of a parsed file the pass goes on
  with none.
\<close>

theorem body_walked_iff_entry_point:
  "(isTestFunction d \<and> hasTestingTParam d) = isTestEntryPoint d
   \<and> (isTestEntryPoint d \<longrightarrow> runDecl (FuncDecl d) = checkDeferInTestFunc (Body d))
   \<and> (\<not> isTestEntryPoint d \<longrightarrow> (\<forall>ds. runDecl (FuncDecl d) = Inr ds \<longrightarrow> ds = []))
   \<and> (\<not> isTestEntryPoint d \<and> wellFormedBody (Body d) \<longrightarrow> runDecl (FuncDecl d) = Inr [])"
proof -
  have q: "(isTestFunction d \<and> hasTestingTParam d) = isTestEntryPoint d"
    by (simp only: isTestEntryPoint_def isTestFunction_strict_prefix[of d]
          hasTestingTParam_ex[of d])
  then have a: "isTestEntryPoint d \<longrightarrow> runDecl (FuncDecl d) = checkDeferInTestFunc (Body d)"
    by auto
  from q runDecl_not_checked(1)[of d]
  have b: "\<not> isTestEntryPoint d \<longrightarrow> (\<forall>ds. runDecl (FuncDecl d) = Inr ds \<longrightarrow> ds = [])"
    by blast
  from q runDecl_not_checked(2)[of d]
  have c: "\<not> isTestEntryPoint d \<and> wellFormedBody (Body d) \<longrightarrow> runDecl (FuncDecl d) = Inr []"
    by blast
  from q a b c show ?thesis by blast
qed

theorem body_walked_iff_entry_point_witness:
  "isTestEntryPoint \<lparr>Name = ''TestA'', FType = sigT, Body = Some [DeferStmt 7 cleanupCall]\<rparr>
   \<and> runDecl (FuncDecl \<lparr>Name = ''TestA'', FType = sigT,
        Body = Some [DeferStmt 7 cleanupCall]\<rparr>) = Inr [report 7]
   \<and> \<not> isTestEntryPoint \<lparr>Name = ''TestWithoutTestingT'', FType = sigNone,
        Body = Some [DeferStmt 8 cleanupCall]\<rparr>
   \<and> wellFormedBody (Some [DeferStmt 8 cleanupCall])
   \<and> wellFormedBody (Some [DeferStmt 9 cleanupCall])
   \<and> runDecl (FuncDecl \<lparr>Name = ''TestWithoutTestingT'', FType = sigNone,
        Body = Some [DeferStmt 8 cleanupCall]\<rparr>) = Inr []
   \<and> \<not> isTestEntryPoint \<lparr>Name = ''TestWithWrongParameterType'',
        FType = \<lparr>Params = Some [\<lparr>Names = [''s''], FieldType = Ident ''string''\<rparr>]\<rparr>,
        Body = Some [DeferStmt 9 cleanupCall]\<rparr>
   \<and> runDecl (FuncDecl \<lparr>Name = ''TestWithWrongParameterType'',
        FType = \<lparr>Params = Some [\<lparr>Names = [''s''], FieldType = Ident ''string''\<rparr>]\<rparr>,
        Body = Some [DeferStmt 9 cleanupCall]\<rparr>) = Inr []"
  using body_walked_iff_entry_point
    [of "\<lparr>Name = ''TestA'', FType = sigT, Body = Some [DeferStmt 7 cleanupCall]\<rparr>"]
    body_walked_iff_entry_point
    [of "\<lparr>Name = ''TestWithoutTestingT'', FType = sigNone,
          Body = Some [DeferStmt 8 cleanupCall]\<rparr>"]
    body_walked_iff_entry_point
    [of "\<lparr>Name = ''TestWithWrongParameterType'',
          FType = \<lparr>Params = Some [\<lparr>Names = [''s''], FieldType = Ident ''string''\<rparr>]\<rparr>,
          Body = Some [DeferStmt 9 cleanupCall]\<rparr>"]
  by (simp add: isTestEntryPoint_def testContextParameterShape_def eval_defs sample_defs)

subsection \<open>C4: the findings of a test-context body\<close>

text \<open>
  C4. For a test-context body (a statement list in which every function literal has a
  type and a body, as in any parsed file) the walk succeeds and its findings are exactly the defer
  statements that no non-qualifying function literal encloses, one finding each, at the
  position of the statement and in source order; so the number of findings is the
  number of those statements. Every node other than a defer statement and a function
  literal (if, for, switch, case clause, select, block, ...) is walked through, so a
  defer statement under such nodes is found as at top level, and consecutive defer
  statements are found one by one.
\<close>

theorem findings_are_reachable_defers:
  assumes "wellFormedList stmts"
  shows "checkDeferInTestFunc (Some stmts) =
           Inr (map report (reachableDefers (defersInList stmts)))
         \<and> (\<exists>ds. checkDeferInTestFunc (Some stmts) = Inr ds
                \<and> length ds = length (reachableDefers (defersInList stmts)))"
  using walk_reachable(2)[OF assms] by simp

text \<open>
  The body
  \<open>if c { defer cleanup() }; for { defer cleanup() }; defer cleanup(); defer cleanup();
   fn := func() { defer cleanup() }\<close>
  holds five defer statements, four of them reachable.
\<close>

theorem findings_are_reachable_defers_witness:
  "wellFormedList
     [Other [Other [], Other [DeferStmt 10 cleanupCall]],
      Other [Other [DeferStmt 20 cleanupCall]],
      DeferStmt 30 cleanupCall,
      DeferStmt 40 cleanupCall,
      Other [Other [], FuncLit (Some sigNone) (Some [DeferStmt 50 cleanupCall])]]
   \<and> length (defersInList
     [Other [Other [], Other [DeferStmt 10 cleanupCall]],
      Other [Other [DeferStmt 20 cleanupCall]],
      DeferStmt 30 cleanupCall,
      DeferStmt 40 cleanupCall,
      Other [Other [], FuncLit (Some sigNone) (Some [DeferStmt 50 cleanupCall])]]) = 5
   \<and> checkDeferInTestFunc (Some
     [Other [Other [], Other [DeferStmt 10 cleanupCall]],
      Other [Other [DeferStmt 20 cleanupCall]],
      DeferStmt 30 cleanupCall,
      DeferStmt 40 cleanupCall,
      Other [Other [], FuncLit (Some sigNone) (Some [DeferStmt 50 cleanupCall])]])
     = Inr [report 10, report 20, report 30, report 40]"
  using findings_are_reachable_defers
    [of "[Other [Other [], Other [DeferStmt 10 cleanupCall]],
      Other [Other [DeferStmt 20 cleanupCall]],
      DeferStmt 30 cleanupCall,
      DeferStmt 40 cleanupCall,
      Other [Other [], FuncLit (Some sigNone) (Some [DeferStmt 50 cleanupCall])]]"]
  by (simp add: reachableDefers_def sample_defs)

subsection \<open>C5: declarations without a recognized prefix\<close>

text \<open>
  C5. A function declaration whose name starts with neither \<open>Test\<close> nor \<open>Benchmark\<close>
  yields no finding, whatever its signature and its body; for a declaration of a parsed
  file the pass ends with no finding.
\<close>

theorem no_prefix_no_findings:
  assumes "\<not> prefix ''Test'' (Name d)" and "\<not> prefix ''Benchmark'' (Name d)"
  shows "(\<forall>ds. run \<lparr>Files = [[FuncDecl d]]\<rparr> = Inr ds \<longrightarrow> ds = [])
         \<and> (wellFormedBody (Body d) \<longrightarrow> run \<lparr>Files = [[FuncDecl d]]\<rparr> = Inr [])"
proof -
  from assms isTestFunction_strict_prefix[of d] have "\<not> isTestFunction d"
    by (simp add: strict_prefix_def)
  then have n: "\<not> (isTestFunction d \<and> hasTestingTParam d)" by simp
  from runDecl_not_checked(1)[OF n] runDecl_not_checked(2)[OF n] show ?thesis
    by (simp add: run_single)
qed

text \<open>Scenario F: \<open>func Helper(t *testing.T) { defer cleanup() }\<close>.\<close>

theorem no_prefix_no_findings_witness:
  "\<not> prefix ''Test'' ''Helper'' \<and> \<not> prefix ''Benchmark'' ''Helper''
   \<and> wellFormedBody (Some [DeferStmt 5 cleanupCall])
   \<and> run \<lparr>Files = [[FuncDecl \<lparr>Name = ''Helper'', FType = sigT,
        Body = Some [DeferStmt 5 cleanupCall]\<rparr>]]\<rparr> = Inr []"
  using no_prefix_no_findings
    [of "\<lparr>Name = ''Helper'', FType = sigT, Body = Some [DeferStmt 5 cleanupCall]\<rparr>"]
  by (simp add: sample_defs)

subsection \<open>C6: a subtest literal\<close>

text \<open>
  C6. Let a declaration be a test entry point whose body holds a statement that calls a
  function with a function literal as last argument, the literal carrying a test-context
  parameter and its body being the single defer statement at position \<open>p\<close>; let every
  literal be complete, as in a parsed file, and let there be no other defer statement: none in
  the statements before and after, in the called function, in the other arguments, or
  in the deferred call. Then the declaration yields exactly one finding, whose position
  is \<open>p\<close>, the position of the inner defer statement, and whose message is the one
  message of the analyzer.
\<close>

theorem subtest_defer_one_finding:
  assumes "isTestFunction d" and "hasTestingTParam d" and "hasFuncLitTestingTParam ty"
    and "Body d = Some (pre @ [Other [Other (callee # args @
            [FuncLit ty (Some [DeferStmt p call])])]] @ post)"
    and "wellFormedList (pre @ callee # args @ call # post)"
    and "defersInList (pre @ callee # args @ call # post) = []"
  shows "runDecl (FuncDecl d) =
           Inr [\<lparr>Pos = p, Message =
             ''use t.Cleanup() instead of defer in test functions to ensure cleanup runs even after t.Fatal/t.FailNow''\<rparr>]"
proof -
  let ?body = "pre @ [Other [Other (callee # args @
                 [FuncLit ty (Some [DeferStmt p call])])]] @ post"
  from hasFuncLitTestingTParam_Some[OF assms(3)] obtain t where "ty = Some t" ..
  with assms(5) have wf: "wellFormedList ?body"
    by (simp add: wellFormedList_append)
  from assms(3,6) have "defersInList ?body = [([True], p)]"
    by (simp add: defersInList_append)
  then have "reachableDefers (defersInList ?body) = [p]"
    by (simp add: reachableDefers_def)
  with walk_reachable(2)[OF wf] assms(1,2,4) show ?thesis
    by (simp add: report_def message_def)
qed

text \<open>
  Scenario D: \<open>func TestFoo(t *testing.T) { t.Run("x", func(t *testing.T) { defer cleanup() }) }\<close>,
  the defer statement at position 99.
\<close>

theorem subtest_defer_one_finding_witness:
  "isTestFunction \<lparr>Name = ''TestFoo'', FType = sigT,
      Body = Some [tRun (FuncLit (Some sigT) (Some [DeferStmt 99 cleanupCall]))]\<rparr>
   \<and> hasTestingTParam \<lparr>Name = ''TestFoo'', FType = sigT,
      Body = Some [tRun (FuncLit (Some sigT) (Some [DeferStmt 99 cleanupCall]))]\<rparr>
   \<and> hasFuncLitTestingTParam (Some sigT)
   \<and> tRun (FuncLit (Some sigT) (Some [DeferStmt 99 cleanupCall])) =
       Other [Other (Other [Other [], Other []] # [Other []] @
         [FuncLit (Some sigT) (Some [DeferStmt 99 cleanupCall])])]
   \<and> wellFormedList ([] @ Other [Other [], Other []] # [Other []] @ cleanupCall # [])
   \<and> defersInList ([] @ Other [Other [], Other []] # [Other []] @ cleanupCall # []) = []
   \<and> runDecl (FuncDecl \<lparr>Name = ''TestFoo'', FType = sigT,
      Body = Some [tRun (FuncLit (Some sigT) (Some [DeferStmt 99 cleanupCall]))]\<rparr>)
       = Inr [\<lparr>Pos = 99, Message =
           ''use t.Cleanup() instead of defer in test functions to ensure cleanup runs even after t.Fatal/t.FailNow''\<rparr>]"
  using subtest_defer_one_finding
    [of "\<lparr>Name = ''TestFoo'', FType = sigT,
          Body = Some [tRun (FuncLit (Some sigT) (Some [DeferStmt 99 cleanupCall]))]\<rparr>"
        "Some sigT" "[]" "Other [Other [], Other []]" "[Other []]" 99 cleanupCall "[]"]
  by (simp add: eval_defs sample_defs)

subsection \<open>C7: the bare prefix\<close>

text \<open>
  C7. A declaration named exactly \<open>Test\<close> or exactly \<open>Benchmark\<close> is not a test function,
  whatever its signature, and yields no finding, whatever its body; for a declaration of
  a parsed file the pass goes on with none.
\<close>

theorem bare_prefix_not_test_function:
  assumes "Name d = ''Test'' \<or> Name d = ''Benchmark''"
  shows "\<not> isTestFunction d
         \<and> (\<forall>ds. runDecl (FuncDecl d) = Inr ds \<longrightarrow> ds = [])
         \<and> (wellFormedBody (Body d) \<longrightarrow> runDecl (FuncDecl d) = Inr [])"
proof -
  from assms have "\<not> isTestFunction d" by (auto simp: isTestFunction_def)
  then have n: "\<not> (isTestFunction d \<and> hasTestingTParam d)" by simp
  from \<open>\<not> isTestFunction d\<close> runDecl_not_checked(1)[OF n] runDecl_not_checked(2)[OF n]
  show ?thesis by blast
qed

text \<open>Scenario E: \<open>func Test(t *testing.T) { defer cleanup() }\<close>, and the same for \<open>Benchmark\<close>.\<close>

theorem bare_prefix_not_test_function_witness:
  "hasTestingTParam \<lparr>Name = ''Test'', FType = sigT, Body = Some [DeferStmt 3 cleanupCall]\<rparr>
   \<and> \<not> isTestFunction \<lparr>Name = ''Test'', FType = sigT, Body = Some [DeferStmt 3 cleanupCall]\<rparr>
   \<and> wellFormedBody (Some [DeferStmt 3 cleanupCall])
   \<and> runDecl (FuncDecl \<lparr>Name = ''Test'', FType = sigT,
        Body = Some [DeferStmt 3 cleanupCall]\<rparr>) = Inr []
   \<and> \<not> isTestFunction \<lparr>Name = ''Benchmark'', FType = sigT,
        Body = Some [DeferStmt 3 cleanupCall]\<rparr>
   \<and> runDecl (FuncDecl \<lparr>Name = ''Benchmark'', FType = sigT,
        Body = Some [DeferStmt 3 cleanupCall]\<rparr>) = Inr []"
  using bare_prefix_not_test_function
    [of "\<lparr>Name = ''Test'', FType = sigT, Body = Some [DeferStmt 3 cleanupCall]\<rparr>"]
    bare_prefix_not_test_function
    [of "\<lparr>Name = ''Benchmark'', FType = sigT, Body = Some [DeferStmt 3 cleanupCall]\<rparr>"]
  by (simp add: hasTestingTParam_def sample_defs)

subsection \<open>C8: absent parameter lists and absent bodies\<close>

text \<open>
  C8 holds for parameter lists and fails for bodies. An absent parameter list makes
  both signature predicates false. An absent body is not treated as an empty body: for
  the declaration \<open>func TestAsm(t *testing.T)\<close>, declared without a body, \<open>run\<close> passes the
  nil body to \<open>checkDeferInTestFunc\<close> and the analyzer panics; so does the walk at a
  function literal with a test-context parameter and no body. The same declaration under
  the name \<open>helperAsm\<close> is not checked and does no harm.
\<close>

theorem absent_body_panics:
  "\<not> hasTestingTParam \<lparr>Name = ''TestAsm'', FType = \<lparr>Params = None\<rparr>, Body = None\<rparr>
   \<and> \<not> hasFuncLitTestingTParam None
   \<and> \<not> hasFuncLitTestingTParam (Some \<lparr>Params = None\<rparr>)
   \<and> isTestFunction \<lparr>Name = ''TestAsm'',
        FType = \<lparr>Params = Some [\<lparr>Names = [''t''],
          FieldType = StarExpr (SelectorExpr (Ident ''testing'') ''T'')\<rparr>]\<rparr>, Body = None\<rparr>
   \<and> hasTestingTParam \<lparr>Name = ''TestAsm'',
        FType = \<lparr>Params = Some [\<lparr>Names = [''t''],
          FieldType = StarExpr (SelectorExpr (Ident ''testing'') ''T'')\<rparr>]\<rparr>, Body = None\<rparr>
   \<and> run \<lparr>Files = [[FuncDecl \<lparr>Name = ''TestAsm'',
        FType = \<lparr>Params = Some [\<lparr>Names = [''t''],
          FieldType = StarExpr (SelectorExpr (Ident ''testing'') ''T'')\<rparr>]\<rparr>, Body = None\<rparr>]]\<rparr>
       = Inl NilPointerDereference
   \<and> checkDeferInTestFunc (Some [FuncLit
        (Some \<lparr>Params = Some [\<lparr>Names = [''t''],
          FieldType = StarExpr (SelectorExpr (Ident ''testing'') ''T'')\<rparr>]\<rparr>) None])
       = Inl NilPointerDereference
   \<and> run \<lparr>Files = [[FuncDecl \<lparr>Name = ''helperAsm'',
        FType = \<lparr>Params = Some [\<lparr>Names = [''t''],
          FieldType = StarExpr (SelectorExpr (Ident ''testing'') ''T'')\<rparr>]\<rparr>, Body = None\<rparr>]]\<rparr>
       = Inr []"
  by (simp add: eval_defs)

subsection \<open>C9: the message\<close>

text \<open>
  C9. Every finding of a run of the pass carries the same message, the constant text
  below, whatever the statement it was reported for.
\<close>

theorem message_is_constant:
  assumes "run p = Inr ds"
  shows "\<forall>d \<in> set ds. Message d =
           ''use t.Cleanup() instead of defer in test functions to ensure cleanup runs even after t.Fatal/t.FailNow''"
  using runFiles_message[of "Files p" ds] assms by (simp add: run_def message_def)

theorem message_is_constant_witness:
  "run \<lparr>Files = [[FuncDecl \<lparr>Name = ''TestMultipleDefers'', FType = sigT,
      Body = Some [DeferStmt 11 (Other [FuncLit (Some sigNone) (Some [])]),
                   DeferStmt 12 cleanupCall]\<rparr>]]\<rparr>
     = Inr [report 11, report 12]
   \<and> Message (report 11) =
       ''use t.Cleanup() instead of defer in test functions to ensure cleanup runs even after t.Fatal/t.FailNow''
   \<and> Message (report 12) =
       ''use t.Cleanup() instead of defer in test functions to ensure cleanup runs even after t.Fatal/t.FailNow''"
proof -
  have r: "run \<lparr>Files = [[FuncDecl \<lparr>Name = ''TestMultipleDefers'', FType = sigT,
      Body = Some [DeferStmt 11 (Other [FuncLit (Some sigNone) (Some [])]),
                   DeferStmt 12 cleanupCall]\<rparr>]]\<rparr>
     = Inr [report 11, report 12]"
    by (simp add: eval_defs sample_defs)
  from r message_is_constant[OF r] show ?thesis by simp
qed

subsection \<open>C10: the parameter check is syntactic\<close>

text \<open>
  C10. A parameter type passes the check of the two signature predicates if and only if
  it is a star expression over a selector expression whose operand is the identifier
  \<open>testing\<close> and whose selected name is \<open>T\<close> or \<open>B\<close>; a declaration (a literal) has a
  test-context parameter if and only if its parameter list is present and holds a field
  of such a type. The type \<open>testing.T\<close> without the star does not pass, nor does a pointer
  written through another package name; a declaration or a literal whose parameters all
  fail the check is not treated as a test context and yields no finding.
\<close>

theorem parameter_check_is_syntactic:
  "isTestingTOrB e =
     (\<exists>sel. (sel = ''T'' \<or> sel = ''B'') \<and> e = StarExpr (SelectorExpr (Ident ''testing'') sel))
   \<and> hasTestingTParam d =
       (\<exists>fs. Params (FType d) = Some fs
          \<and> (\<exists>f \<in> set fs. testContextParameterShape (FieldType f)))
   \<and> hasFuncLitTestingTParam ty =
       (\<exists>t fs. ty = Some t \<and> Params t = Some fs
          \<and> (\<exists>f \<in> set fs. testContextParameterShape (FieldType f)))
   \<and> \<not> isTestingTOrB (SelectorExpr (Ident ''testing'') sel')
   \<and> (pkg \<noteq> ''testing'' \<longrightarrow> \<not> isTestingTOrB (StarExpr (SelectorExpr (Ident pkg) sel')))
   \<and> ((\<forall>f \<in> set (case Params (FType d) of None \<Rightarrow> [] | Some fs \<Rightarrow> fs).
          \<not> testContextParameterShape (FieldType f))
        \<longrightarrow> (\<forall>ds. runDecl (FuncDecl d) = Inr ds \<longrightarrow> ds = [])
            \<and> (wellFormedBody (Body d) \<longrightarrow> runDecl (FuncDecl d) = Inr []))
   \<and> ((\<forall>t fs. ty = Some t \<and> Params t = Some fs \<longrightarrow>
          (\<forall>f \<in> set fs. \<not> testContextParameterShape (FieldType f)))
         \<longrightarrow> inspectNode (FuncLit ty body) = Inr [])"
proof -
  have a: "isTestingTOrB e =
     (\<exists>sel. (sel = ''T'' \<or> sel = ''B'') \<and> e = StarExpr (SelectorExpr (Ident ''testing'') sel))"
    using isTestingTOrB_shape[of e] by (auto simp: testContextParameterShape_def)
  have b: "hasTestingTParam d =
       (\<exists>fs. Params (FType d) = Some fs
          \<and> (\<exists>f \<in> set fs. testContextParameterShape (FieldType f)))"
    by (cases "Params (FType d)")
       (simp_all add: hasTestingTParam_def paramsLoop_ex isTestingTOrB_shape)
  have c: "hasFuncLitTestingTParam ty =
       (\<exists>t fs. ty = Some t \<and> Params t = Some fs
          \<and> (\<exists>f \<in> set fs. testContextParameterShape (FieldType f)))"
    by (cases ty) (auto simp: paramsLoop_ex isTestingTOrB_shape split: option.splits)
  have d: "(\<forall>f \<in> set (case Params (FType d) of None \<Rightarrow> [] | Some fs \<Rightarrow> fs).
          \<not> testContextParameterShape (FieldType f))
        \<longrightarrow> (\<forall>ds. runDecl (FuncDecl d) = Inr ds \<longrightarrow> ds = [])
            \<and> (wellFormedBody (Body d) \<longrightarrow> runDecl (FuncDecl d) = Inr [])"
  proof
    assume "\<forall>f \<in> set (case Params (FType d) of None \<Rightarrow> [] | Some fs \<Rightarrow> fs).
          \<not> testContextParameterShape (FieldType f)"
    with hasTestingTParam_ex[of d] have n: "\<not> (isTestFunction d \<and> hasTestingTParam d)"
      by simp
    from runDecl_not_checked(1)[OF n] runDecl_not_checked(2)[OF n]
    show "(\<forall>ds. runDecl (FuncDecl d) = Inr ds \<longrightarrow> ds = [])
            \<and> (wellFormedBody (Body d) \<longrightarrow> runDecl (FuncDecl d) = Inr [])"
      by blast
  qed
  have e: "(\<forall>t fs. ty = Some t \<and> Params t = Some fs \<longrightarrow>
          (\<forall>f \<in> set fs. \<not> testContextParameterShape (FieldType f)))
         \<longrightarrow> inspectNode (FuncLit ty body) = Inr []"
    using c by auto
  from a b c d e show ?thesis by simp
qed

text \<open>
  \<open>func TestRenamed(t *tt.T) { defer cleanup() }\<close> under \<open>import tt "testing"\<close>, and the
  literal \<open>func(t testing.T) { defer cleanup() }\<close>.
\<close>

theorem parameter_check_is_syntactic_witness:
  "isTestingTOrB (StarExpr (SelectorExpr (Ident ''testing'') ''B''))
   \<and> ''tt'' \<noteq> ''testing''
   \<and> \<not> isTestingTOrB (StarExpr (SelectorExpr (Ident ''tt'') ''T''))
   \<and> \<not> isTestingTOrB (SelectorExpr (Ident ''testing'') ''T'')
   \<and> wellFormedBody (Some [DeferStmt 21 cleanupCall])
   \<and> runDecl (FuncDecl \<lparr>Name = ''TestRenamed'',
        FType = \<lparr>Params = Some [\<lparr>Names = [''t''],
          FieldType = StarExpr (SelectorExpr (Ident ''tt'') ''T'')\<rparr>]\<rparr>,
        Body = Some [DeferStmt 21 cleanupCall]\<rparr>) = Inr []
   \<and> inspectNode (FuncLit
        (Some \<lparr>Params = Some [\<lparr>Names = [''t''],
          FieldType = SelectorExpr (Ident ''testing'') ''T''\<rparr>]\<rparr>)
        (Some [DeferStmt 22 cleanupCall])) = Inr []"
  using parameter_check_is_syntactic
    [of "StarExpr (SelectorExpr (Ident ''testing'') ''B'')"
        "\<lparr>Name = ''TestRenamed'',
          FType = \<lparr>Params = Some [\<lparr>Names = [''t''],
            FieldType = StarExpr (SelectorExpr (Ident ''tt'') ''T'')\<rparr>]\<rparr>,
          Body = Some [DeferStmt 21 cleanupCall]\<rparr>"
        "Some \<lparr>Params = Some [\<lparr>Names = [''t''],
          FieldType = SelectorExpr (Ident ''testing'') ''T''\<rparr>]\<rparr>"
        "''T''" "''tt''" "Some [DeferStmt 22 cleanupCall]"]
  by (simp add: testContextParameterShape_def sample_defs)

end
